theory Spec2Isabelle
  imports Complex_Main
begin

section \<open>Values of the program\<close>

text \<open>
  The program of \<^verbatim>\<open>app_hq.py\<close> handles the text returned by a remote vision-language
  model, the Python value that \<^verbatim>\<open>json.loads\<close> builds from it, and boxes of numbers.

  A Python \<^verbatim>\<open>str\<close> is a sequence of Unicode code points: it is modelled as a list of
  natural numbers, one per character, so \<open>length\<close> and \<open>take\<close> count what Python's
  \<^verbatim>\<open>len\<close> and slicing count. \<open>ord c\<close> is the code point of an ASCII character and
  \<open>pystr\<close> turns an ASCII literal into such a string.

  A Python \<^verbatim>\<open>float\<close> is idealised: a finite value is a rational number, \<^verbatim>\<open>/\<close> and
  \<^verbatim>\<open>*\<close> on finite values are exact (no rounding, no overflow); the three non-finite
  values that \<^verbatim>\<open>json.loads\<close> can produce are kept. Python's \<^verbatim>\<open>int\<close> is \<open>int\<close>.
\<close>

type_synonym pystr = "nat list"

definition ord :: "char \<Rightarrow> nat" where
  "ord c = of_char c"

definition pystr :: "string \<Rightarrow> pystr" where
  "pystr s = map ord s"

datatype pyfloat = Fin rat | PosInf | NegInf | NaN

datatype json =
    JNull
  | JBool bool
  | JInt int
  | JFloat pyfloat
  | JStr pystr
  | JArr "json list"
  | JObj "(pystr \<times> json) list"

text \<open>
  The exceptions (instances of Python's \<^verbatim>\<open>Exception\<close>) that the modelled code can
  meet. \<open>OtherError\<close> is any exception of a library call (the remote service, the
  segmentation model) with the text that \<^verbatim>\<open>str(e)\<close> gives.
\<close>

datatype exn =
    KeyError pystr
  | TypeError
  | ValueError
  | IndexError
  | ZeroDivisionError
  | JSONDecodeError
  | OtherError pystr

text \<open>
  A \<^verbatim>\<open>dict\<close> is kept as the list of its insertions: a later insertion of a key
  replaces the value, and the key keeps the place of its first insertion.
\<close>

definition dict_lookup :: "(pystr \<times> json) list \<Rightarrow> pystr \<Rightarrow> json option" where
  "dict_lookup kvs k = map_of (rev kvs) k"

definition dict_keys :: "(pystr \<times> json) list \<Rightarrow> pystr list" where
  "dict_keys kvs = rev (remdups (rev (map fst kvs)))"

text \<open>\<^verbatim>\<open>obj[key]\<close> with a string key: only a dict accepts it.\<close>

fun getitem :: "json \<Rightarrow> pystr \<Rightarrow> exn + json" where
  "getitem (JObj kvs) k = (case dict_lookup kvs k of None \<Rightarrow> Inl (KeyError k) | Some v \<Rightarrow> Inr v)"
| "getitem _ k = Inl TypeError"

text \<open>\<^verbatim>\<open>obj.get(key, default)\<close>: a method of dicts only.\<close>

fun get_default :: "json \<Rightarrow> pystr \<Rightarrow> json \<Rightarrow> exn + json" where
  "get_default (JObj kvs) k d = (case dict_lookup kvs k of None \<Rightarrow> Inr d | Some v \<Rightarrow> Inr v)"
| "get_default _ k d = Inl (OtherError (pystr ''AttributeError''))"

text \<open>Iteration: a list gives its elements, a dict its keys, a string its characters.\<close>

fun py_iter :: "json \<Rightarrow> exn + json list" where
  "py_iter (JArr xs) = Inr xs"
| "py_iter (JObj kvs) = Inr (map JStr (dict_keys kvs))"
| "py_iter (JStr s) = Inr (map (\<lambda>c. JStr [c]) s)"
| "py_iter _ = Inl TypeError"

text \<open>\<^verbatim>\<open>a, b, c, d = v\<close>: exactly four elements, else \<^verbatim>\<open>ValueError\<close>.\<close>

definition unpack4 :: "json \<Rightarrow> exn + (json \<times> json \<times> json \<times> json)" where
  "unpack4 v =
     (case py_iter v of
        Inl e \<Rightarrow> Inl e
      | Inr xs \<Rightarrow> (case xs of [a, b, c, d] \<Rightarrow> Inr (a, b, c, d) | _ \<Rightarrow> Inl ValueError))"

text \<open>
  \<^verbatim>\<open>v / 1000\<close>: true division of a number by the \<^verbatim>\<open>int\<close> 1000 (a \<^verbatim>\<open>bool\<close> counts
  as 0 or 1), \<^verbatim>\<open>TypeError\<close> for anything else. The result is a \<^verbatim>\<open>float\<close>.
\<close>

fun fdiv_1000 :: "pyfloat \<Rightarrow> pyfloat" where
  "fdiv_1000 (Fin r) = Fin (r / 1000)"
| "fdiv_1000 x = x"

fun truediv_1000 :: "json \<Rightarrow> exn + pyfloat" where
  "truediv_1000 (JInt i) = Inr (Fin (of_int i / 1000))"
| "truediv_1000 (JFloat x) = Inr (fdiv_1000 x)"
| "truediv_1000 (JBool b) = Inr (Fin (of_int (if b then 1 else 0) / 1000))"
| "truediv_1000 _ = Inl TypeError"

text \<open>\<^verbatim>\<open>q * n\<close> for a \<^verbatim>\<open>float\<close> \<open>q\<close> and an \<^verbatim>\<open>int\<close> \<open>n\<close>.\<close>

fun fmul_int :: "pyfloat \<Rightarrow> int \<Rightarrow> pyfloat" where
  "fmul_int (Fin r) n = Fin (r * of_int n)"
| "fmul_int PosInf n = (if 0 < n then PosInf else if n < 0 then NegInf else NaN)"
| "fmul_int NegInf n = (if 0 < n then NegInf else if n < 0 then PosInf else NaN)"
| "fmul_int NaN n = NaN"

text \<open>\<^verbatim>\<open>v / 1000 * n\<close>, with \<open>n\<close> the width or the height of the image.\<close>

definition scale_coord :: "json \<Rightarrow> int \<Rightarrow> exn + pyfloat" where
  "scale_coord v n =
     (case truediv_1000 v of Inl e \<Rightarrow> Inl e | Inr q \<Rightarrow> Inr (fmul_int q n))"

section \<open>The detection adapter: coordinate conversion\<close>

text \<open>
  The body of the loop of \<^verbatim>\<open>process_gemini_auto\<close>:
  \<^verbatim>\<open>
  ymin, xmin, ymax, xmax = item["box_2d"]
  box = [xmin / 1000 * width, ymin / 1000 * height,
         xmax / 1000 * width, ymax / 1000 * height]
  bboxes.append(box)
  labels.append(item.get("label", "Object"))
  \<close>
\<close>

definition convert_item :: "int \<Rightarrow> int \<Rightarrow> json \<Rightarrow> exn + (pyfloat list \<times> json)" where
  "convert_item width height item =
     (case getitem item (pystr ''box_2d'') of
        Inl e \<Rightarrow> Inl e
      | Inr b \<Rightarrow>
        (case unpack4 b of
           Inl e \<Rightarrow> Inl e
         | Inr (ymin, xmin, ymax, xmax) \<Rightarrow>
           (case scale_coord xmin width of
              Inl e \<Rightarrow> Inl e
            | Inr x0 \<Rightarrow>
              (case scale_coord ymin height of
                 Inl e \<Rightarrow> Inl e
               | Inr y0 \<Rightarrow>
                 (case scale_coord xmax width of
                    Inl e \<Rightarrow> Inl e
                  | Inr x1 \<Rightarrow>
                    (case scale_coord ymax height of
                       Inl e \<Rightarrow> Inl e
                     | Inr y1 \<Rightarrow>
                       (case get_default item (pystr ''label'') (JStr (pystr ''Object'')) of
                          Inl e \<Rightarrow> Inl e
                        | Inr l \<Rightarrow> Inr ([x0, y0, x1, y1], l))))))))"

fun convert_loop ::
  "int \<Rightarrow> int \<Rightarrow> json list \<Rightarrow> pyfloat list list \<Rightarrow> json list \<Rightarrow> exn + (pyfloat list list \<times> json list)"
where
  "convert_loop width height [] bboxes labels = Inr (bboxes, labels)"
| "convert_loop width height (item # items) bboxes labels =
     (case convert_item width height item of
        Inl e \<Rightarrow> Inl e
      | Inr (box, l) \<Rightarrow> convert_loop width height items (bboxes @ [box]) (labels @ [l]))"

text \<open>\<^verbatim>\<open>for item in json_data\<close> with \<^verbatim>\<open>bboxes = []\<close> and \<^verbatim>\<open>labels = []\<close>.\<close>

definition convert_items :: "int \<Rightarrow> int \<Rightarrow> json \<Rightarrow> exn + (pyfloat list list \<times> json list)" where
  "convert_items width height json_data =
     (case py_iter json_data of
        Inl e \<Rightarrow> Inl e
      | Inr items \<Rightarrow> convert_loop width height items [] [])"

section \<open>The detection adapter: locating the bracketed span\<close>

text \<open>
  \<^verbatim>\<open>re.search(r'\[.*\]', text_resp, re.DOTALL)\<close>: the pattern is an opening bracket,
  then \<^verbatim>\<open>.*\<close>, which with \<^verbatim>\<open>DOTALL\<close> takes any characters, newlines too, and is greedy,
  then a closing bracket. \<open>match_rest\<close> matches \<^verbatim>\<open>.*\]\<close> at the start of a string
  the greedy way: \<^verbatim>\<open>.*\<close> first takes as much as it can and gives characters back
  one at a time until a closing bracket follows. \<open>match_here\<close> matches the whole
  pattern at the start of a string, and \<open>re_search\<close> tries the start positions from
  left to right, as \<^verbatim>\<open>re.search\<close> does. The result is \<^verbatim>\<open>match.group(0)\<close>.
\<close>

fun match_rest :: "pystr \<Rightarrow> pystr option" where
  "match_rest [] = None"
| "match_rest (c # cs) =
     (case match_rest cs of
        Some m \<Rightarrow> Some (c # m)
      | None \<Rightarrow> if c = ord CHR '']'' then Some [c] else None)"

fun match_here :: "pystr \<Rightarrow> pystr option" where
  "match_here [] = None"
| "match_here (c # cs) =
     (if c = ord CHR ''['' then map_option (Cons c) (match_rest cs) else None)"

fun re_search :: "pystr \<Rightarrow> pystr option" where
  "re_search [] = None"
| "re_search (c # cs) =
     (case match_here (c # cs) of
        Some m \<Rightarrow> Some m
      | None \<Rightarrow> re_search cs)"

section \<open>The JSON decoder\<close>

text \<open>
  \<^verbatim>\<open>json.loads\<close> of the Python standard library, on a \<^verbatim>\<open>str\<close>: the grammar of
  RFC 8259 with Python's extensions (the literals \<^verbatim>\<open>NaN\<close>, \<^verbatim>\<open>Infinity\<close> and
  \<^verbatim>\<open>-Infinity\<close>), any value at the top, only blanks around it. Every failure is a
  \<^verbatim>\<open>JSONDecodeError\<close>. The decoder first cuts the text into tokens, then builds the
  value with a stack of the containers that are still open. The limit that Python puts
  on the depth of nesting is not modelled.
\<close>

datatype token =
    TLBrack | TRBrack | TLBrace | TRBrace | TComma | TColon
  | TLit json

definition is_ws :: "nat \<Rightarrow> bool" where
  "is_ws c \<longleftrightarrow> c = 32 \<or> c = 9 \<or> c = 10 \<or> c = 13"

definition is_digit :: "nat \<Rightarrow> bool" where
  "is_digit c \<longleftrightarrow> 48 \<le> c \<and> c \<le> 57"

definition hex_val :: "nat \<Rightarrow> nat option" where
  "hex_val c =
     (if 48 \<le> c \<and> c \<le> 57 then Some (c - 48)
      else if 65 \<le> c \<and> c \<le> 70 then Some (c - 55)
      else if 97 \<le> c \<and> c \<le> 102 then Some (c - 87)
      else None)"

text \<open>The characters of which numbers and the literal names are made.\<close>

definition is_word_char :: "nat \<Rightarrow> bool" where
  "is_word_char c \<longleftrightarrow>
     is_digit c \<or> c = ord CHR ''-'' \<or> c = ord CHR ''+'' \<or> c = ord CHR ''.''
     \<or> (65 \<le> c \<and> c \<le> 90) \<or> (97 \<le> c \<and> c \<le> 122)"

subsection \<open>Numbers\<close>

text \<open>
  \<^verbatim>\<open>(-?(?:0|[1-9][0-9]*))(\.[0-9]+)?([eE][-+]?[0-9]+)?\<close>: without fraction and exponent the
  number is an \<^verbatim>\<open>int\<close>, else a \<^verbatim>\<open>float\<close>.
\<close>

definition digits_val :: "pystr \<Rightarrow> int" where
  "digits_val ds = foldl (\<lambda>a c. 10 * a + (int c - 48)) 0 ds"

definition all_digits :: "pystr \<Rightarrow> bool" where
  "all_digits ds \<longleftrightarrow> ds \<noteq> [] \<and> list_all is_digit ds"

definition int_part_ok :: "pystr \<Rightarrow> bool" where
  "int_part_ok ds = (if ds = [48] then True else all_digits ds \<and> hd ds \<noteq> 48)"

definition pow10 :: "int \<Rightarrow> rat" where
  "pow10 e = (if 0 \<le> e then 10 ^ nat e else 1 / 10 ^ nat (- e))"

text \<open>The exponent part, after the \<^verbatim>\<open>e\<close>: an optional sign and digits.\<close>

definition exponent_val :: "pystr \<Rightarrow> int option" where
  "exponent_val s =
     (case s of
        [] \<Rightarrow> None
      | c # cs \<Rightarrow>
          if c = ord CHR ''-'' then (if all_digits cs then Some (- digits_val cs) else None)
          else if c = ord CHR ''+'' then (if all_digits cs then Some (digits_val cs) else None)
          else if all_digits s then Some (digits_val s) else None)"

definition is_exp_mark :: "nat \<Rightarrow> bool" where
  "is_exp_mark c \<longleftrightarrow> c = ord CHR ''e'' \<or> c = ord CHR ''E''"

text \<open>An unsigned number: integer part, optional fraction, optional exponent.\<close>

definition unsigned_number :: "pystr \<Rightarrow> (int + rat) option" where
  "unsigned_number s =
     (let ip = takeWhile is_digit s; r1 = dropWhile is_digit s in
      if \<not> int_part_ok ip then None
      else
        (let has_frac = (r1 \<noteq> [] \<and> hd r1 = ord CHR ''.'');
             fp = (if has_frac then takeWhile is_digit (tl r1) else []);
             r2 = (if has_frac then dropWhile is_digit (tl r1) else r1);
             has_exp = (r2 \<noteq> [] \<and> is_exp_mark (hd r2));
             ex = (if has_exp then exponent_val (tl r2) else Some 0)
         in
           if has_frac \<and> fp = [] then None
           else if \<not> has_exp \<and> r2 \<noteq> [] then None
           else
             (case ex of
                None \<Rightarrow> None
              | Some e \<Rightarrow>
                  if \<not> has_frac \<and> \<not> has_exp then Some (Inl (digits_val ip))
                  else Some (Inr (of_int (digits_val (ip @ fp)) * pow10 (e - int (length fp)))))))"

text \<open>A run of word characters: a number or one of the literal names.\<close>

definition literal :: "pystr \<Rightarrow> json option" where
  "literal w =
     (if w = pystr ''true'' then Some (JBool True)
      else if w = pystr ''false'' then Some (JBool False)
      else if w = pystr ''null'' then Some JNull
      else if w = pystr ''NaN'' then Some (JFloat NaN)
      else if w = pystr ''Infinity'' then Some (JFloat PosInf)
      else if w = pystr ''-Infinity'' then Some (JFloat NegInf)
      else
        (case w of
           [] \<Rightarrow> None
         | c # cs \<Rightarrow>
             if c = ord CHR ''-'' then
               (case unsigned_number cs of
                  None \<Rightarrow> None
                | Some (Inl i) \<Rightarrow> Some (JInt (- i))
                | Some (Inr r) \<Rightarrow> Some (JFloat (Fin (- r))))
             else
               (case unsigned_number w of
                  None \<Rightarrow> None
                | Some (Inl i) \<Rightarrow> Some (JInt i)
                | Some (Inr r) \<Rightarrow> Some (JFloat (Fin r)))))"

subsection \<open>Strings\<close>

text \<open>
  \<open>string_end cs\<close> is the number of characters between an opening quote and the
  closing one, \<open>cs\<close> being the text after the opening quote; a backslash protects the
  character after it.
\<close>

fun string_end :: "pystr \<Rightarrow> nat option" where
  "string_end [] = None"
| "string_end [c] = (if c = 34 then Some 0 else None)"
| "string_end (c # d # cs) =
     (if c = 34 then Some 0
      else if c = 92 then map_option (\<lambda>n. n + 2) (string_end cs)
      else map_option Suc (string_end (d # cs)))"

definition simple_escape :: "nat \<Rightarrow> nat option" where
  "simple_escape e =
     (if e = 34 then Some 34
      else if e = 92 then Some 92
      else if e = ord CHR ''/'' then Some (ord CHR ''/'')
      else if e = ord CHR ''b'' then Some 8
      else if e = ord CHR ''f'' then Some 12
      else if e = ord CHR ''n'' then Some 10
      else if e = ord CHR ''r'' then Some 13
      else if e = ord CHR ''t'' then Some 9
      else None)"

definition hex4 :: "pystr \<Rightarrow> nat option" where
  "hex4 hs =
     (case map hex_val hs of
        [Some a, Some b, Some c, Some d] \<Rightarrow> Some (((a * 16 + b) * 16 + c) * 16 + d)
      | _ \<Rightarrow> None)"

text \<open>
  The text between the quotes, decoded: no control character, the escapes of JSON, and
  a pair of \<^verbatim>\<open>\u\<close> escapes that holds a high and a low surrogate is one character.
\<close>

function unescape :: "pystr \<Rightarrow> pystr option" where
  "unescape s =
     (case s of
        [] \<Rightarrow> Some []
      | c # cs \<Rightarrow>
          if c < 32 then None
          else if c \<noteq> 92 then map_option (Cons c) (unescape cs)
          else
            (case cs of
               [] \<Rightarrow> None
             | e # r \<Rightarrow>
                 if e = ord CHR ''u'' then
                   (case hex4 (take 4 r) of
                      None \<Rightarrow> None
                    | Some u \<Rightarrow>
                        if 55296 \<le> u \<and> u \<le> 56319 \<and> take 2 (drop 4 r) = [92, ord CHR ''u''] then
                          (case hex4 (take 4 (drop 6 r)) of
                             None \<Rightarrow> None
                           | Some u2 \<Rightarrow>
                               if 56320 \<le> u2 \<and> u2 \<le> 57343 then
                                 map_option (Cons (65536 + (u - 55296) * 1024 + (u2 - 56320)))
                                   (unescape (drop 10 r))
                               else map_option (Cons u) (unescape (drop 4 r)))
                        else map_option (Cons u) (unescape (drop 4 r)))
                 else
                   (case simple_escape e of
                      None \<Rightarrow> None
                    | Some d \<Rightarrow> map_option (Cons d) (unescape r))))"
  by pat_completeness auto
termination
  by (relation "measure length") auto

declare unescape.simps [simp del]

subsection \<open>Tokens\<close>

function tokenize :: "pystr \<Rightarrow> token list option" where
  "tokenize s =
     (case s of
        [] \<Rightarrow> Some []
      | c # cs \<Rightarrow>
          if is_ws c then tokenize cs
          else if c = ord CHR ''['' then map_option (Cons TLBrack) (tokenize cs)
          else if c = ord CHR '']'' then map_option (Cons TRBrack) (tokenize cs)
          else if c = ord CHR ''{'' then map_option (Cons TLBrace) (tokenize cs)
          else if c = ord CHR ''}'' then map_option (Cons TRBrace) (tokenize cs)
          else if c = ord CHR '','' then map_option (Cons TComma) (tokenize cs)
          else if c = ord CHR '':'' then map_option (Cons TColon) (tokenize cs)
          else if c = 34 then
            (case string_end cs of
               None \<Rightarrow> None
             | Some n \<Rightarrow>
                 (case unescape (take n cs) of
                    None \<Rightarrow> None
                  | Some str \<Rightarrow>
                      map_option (Cons (TLit (JStr str))) (tokenize (drop (Suc n) cs))))
          else if is_word_char c then
            (case literal (c # takeWhile is_word_char cs) of
               None \<Rightarrow> None
             | Some v \<Rightarrow> map_option (Cons (TLit v)) (tokenize (dropWhile is_word_char cs)))
          else None)"
  by pat_completeness auto
termination
  by (relation "measure length") (auto simp: less_Suc_eq_le length_dropWhile_le)

declare tokenize.simps [simp del]

subsection \<open>Building the value\<close>

text \<open>
  A container that is still open: an array with the elements read so far, or an object
  with the members read so far and the key whose value is being read.
\<close>

datatype ctx = CArr "json list" | CObj "(pystr \<times> json) list" pystr

datatype pstate =
    PValue "ctx list"
  | PArrStart "ctx list"
  | PArrNext "json list" "ctx list"
  | PObjStart "ctx list"
  | PObjKey "(pystr \<times> json) list" "ctx list"
  | PObjColon "(pystr \<times> json) list" pystr "ctx list"
  | PObjNext "(pystr \<times> json) list" "ctx list"
  | PDone json
  | PFail

text \<open>A value is complete: it goes into the innermost open container.\<close>

fun give :: "json \<Rightarrow> ctx list \<Rightarrow> pstate" where
  "give v [] = PDone v"
| "give v (CArr xs # st) = PArrNext (xs @ [v]) st"
| "give v (CObj kvs k # st) = PObjNext (kvs @ [(k, v)]) st"

fun start_value :: "ctx list \<Rightarrow> token \<Rightarrow> pstate" where
  "start_value st (TLit v) = give v st"
| "start_value st TLBrack = PArrStart st"
| "start_value st TLBrace = PObjStart st"
| "start_value st _ = PFail"

fun pstep :: "pstate \<Rightarrow> token \<Rightarrow> pstate" where
  "pstep (PValue st) t = start_value st t"
| "pstep (PArrStart st) t = (if t = TRBrack then give (JArr []) st else start_value (CArr [] # st) t)"
| "pstep (PArrNext xs st) t =
     (if t = TComma then PValue (CArr xs # st)
      else if t = TRBrack then give (JArr xs) st
      else PFail)"
| "pstep (PObjStart st) t =
     (case t of
        TRBrace \<Rightarrow> give (JObj []) st
      | TLit (JStr k) \<Rightarrow> PObjColon [] k st
      | _ \<Rightarrow> PFail)"
| "pstep (PObjKey kvs st) t =
     (case t of
        TLit (JStr k) \<Rightarrow> PObjColon kvs k st
      | _ \<Rightarrow> PFail)"
| "pstep (PObjColon kvs k st) t = (if t = TColon then PValue (CObj kvs k # st) else PFail)"
| "pstep (PObjNext kvs st) t =
     (if t = TComma then PObjKey kvs st
      else if t = TRBrace then give (JObj kvs) st
      else PFail)"
| "pstep (PDone v) t = PFail"
| "pstep PFail t = PFail"

definition json_loads :: "pystr \<Rightarrow> exn + json" where
  "json_loads s =
     (case tokenize s of
        None \<Rightarrow> Inl JSONDecodeError
      | Some ts \<Rightarrow>
          (case foldl pstep (PValue []) ts of
             PDone v \<Rightarrow> Inr v
           | _ \<Rightarrow> Inl JSONDecodeError))"

section \<open>The surroundings of the program\<close>

text \<open>
  An image is read only for its size (\<^verbatim>\<open>image.size\<close>). The object that the
  segmentation model returns is opaque but for its length, which decides its truth
  value in \<^verbatim>\<open>if result:\<close>.
\<close>

record image =
  img_width :: int
  img_height :: int

datatype results = Results (res_len: nat)

text \<open>
  The two services the program calls. \<open>generate_content env api_key model_name image\<close>
  stands for \<^verbatim>\<open>genai.GenerativeModel(model_name).generate_content([prompt, image]).text\<close>
  under the configured key: the text of the response, or the exception raised on the
  way. \<open>sam_model env img bboxes\<close> stands for \<^verbatim>\<open>sam_model(image, bboxes=bboxes)\<close>.
  Both may behave in any way.
\<close>

record env =
  generate_content :: "pystr \<Rightarrow> pystr \<Rightarrow> image \<Rightarrow> exn + pystr"
  sam_model :: "image \<Rightarrow> pyfloat list list \<Rightarrow> exn + results list"

text \<open>
  The second component of the pair that \<^verbatim>\<open>process_gemini_auto\<close> returns, one
  constructor for each text the function builds: the message that no JSON was found,
  with the excerpt \<^verbatim>\<open>text_resp[:100]\<close> it carries; the message of success, with the
  model name it carries; the constant message that nothing was detected; and
  \<^verbatim>\<open>str(e)\<close> of a caught exception.
\<close>

datatype msg =
    MsgJsonNotFound pystr
  | MsgSuccess pystr
  | MsgNoTarget
  | MsgExc exn

text \<open>
  What the program does to the outside, in the order in which it does it: a call of the
  remote service, a call of the segmentation model, and the Streamlit outputs.
\<close>

datatype event =
    RemoteCall pystr pystr
  | SamCall "pyfloat list list"
  | StErrorConfig
  | StError msg
  | StSuccess msg
  | StImageOriginal
  | StImagePlot results

section \<open>The detection adapter\<close>

text \<open>
  The body of the \<^verbatim>\<open>try\<close> block of \<^verbatim>\<open>process_gemini_auto\<close>, from the text of the
  response on: \<open>Inl e\<close> is an exception raised in the block, \<open>Inr\<close> a
  \<^verbatim>\<open>return\<close> in it. The events are the calls of the segmentation model.
\<close>

definition run_sam :: "env \<Rightarrow> image \<Rightarrow> pyfloat list list \<Rightarrow> exn + results" where
  "run_sam env img bboxes =
     (case sam_model env img bboxes of
        Inl e \<Rightarrow> Inl e
      | Inr rs \<Rightarrow> (case rs of [] \<Rightarrow> Inl IndexError | r # _ \<Rightarrow> Inr r))"

text \<open>
  \<^verbatim>\<open>match = re.search(...)\<close> and \<^verbatim>\<open>json.loads(match.group(0))\<close>: \<open>None\<close> when
  the pattern matches nowhere, else the outcome of the decoder on the matched text.
\<close>

definition parse_response :: "pystr \<Rightarrow> (exn + json) option" where
  "parse_response text_resp =
     (case re_search text_resp of
        None \<Rightarrow> None
      | Some found \<Rightarrow> Some (json_loads found))"

definition handle_response ::
  "env \<Rightarrow> image \<Rightarrow> pystr \<Rightarrow> pystr \<Rightarrow> (exn + (results option \<times> msg)) \<times> event list"
where
  "handle_response env img model_name text_resp =
     (case parse_response text_resp of
        None \<Rightarrow> (Inr (None, MsgJsonNotFound (take 100 text_resp)), [])
      | Some (Inl e) \<Rightarrow> (Inl e, [])
      | Some (Inr json_data) \<Rightarrow>
          (case convert_items (img_width img) (img_height img) json_data of
             Inl e \<Rightarrow> (Inl e, [])
           | Inr (bboxes, labels) \<Rightarrow>
               if bboxes \<noteq> [] then
                 (case run_sam env img bboxes of
                    Inl e \<Rightarrow> (Inl e, [SamCall bboxes])
                  | Inr r \<Rightarrow> (Inr (Some r, MsgSuccess model_name), [SamCall bboxes]))
               else (Inr (None, MsgNoTarget), [])))"

definition try_body ::
  "env \<Rightarrow> image \<Rightarrow> pystr \<Rightarrow> pystr \<Rightarrow> (exn + (results option \<times> msg)) \<times> event list"
where
  "try_body env img api_key model_name =
     (case generate_content env api_key model_name img of
        Inl e \<Rightarrow> (Inl e, [RemoteCall api_key model_name])
      | Inr text_resp \<Rightarrow>
          (let (r, evs) = handle_response env img model_name text_resp
           in (r, RemoteCall api_key model_name # evs)))"

text \<open>
  \<^verbatim>\<open>process_gemini_auto(image, api_key, model_name)\<close>: the \<^verbatim>\<open>try\<close> block with
  \<^verbatim>\<open>except Exception as e: return None, str(e)\<close>. Before the block the function
  stores the key (\<^verbatim>\<open>genai.configure\<close>, which calls nothing) and reads the size of the
  image.
\<close>

definition process_gemini_auto ::
  "env \<Rightarrow> image \<Rightarrow> pystr \<Rightarrow> pystr \<Rightarrow> (results option \<times> msg) \<times> event list"
where
  "process_gemini_auto env img api_key model_name =
     (case try_body env img api_key model_name of
        (Inl e, evs) \<Rightarrow> ((None, MsgExc e), evs)
      | (Inr r, evs) \<Rightarrow> (r, evs))"

section \<open>The two workflows of \<^verbatim>\<open>main\<close>\<close>

text \<open>
  The truth value of \<^verbatim>\<open>result\<close> in \<^verbatim>\<open>if result:\<close>: \<^verbatim>\<open>None\<close> is false, a result
  object is true when its length is not zero.
\<close>

fun truthy :: "results option \<Rightarrow> bool" where
  "truthy None = False"
| "truthy (Some r) = (res_len r \<noteq> 0)"

text \<open>
  The automatic tab. \<open>pressed\<close> says whether the button was pressed in this run of
  the script; \<open>api_key\<close> and \<open>selected_gemini_model\<close> are the strings of the sidebar,
  empty when nothing was entered or chosen.
\<close>

definition auto_tab :: "env \<Rightarrow> image \<Rightarrow> pystr \<Rightarrow> pystr \<Rightarrow> bool \<Rightarrow> event list" where
  "auto_tab env image_pil api_key selected_gemini_model pressed =
     (if pressed then
        (if api_key = [] \<or> selected_gemini_model = [] then [StErrorConfig]
         else
           (let ((result, info), evs) = process_gemini_auto env image_pil api_key selected_gemini_model
            in if truthy result
               then evs @ [StImageOriginal, StImagePlot (the result), StSuccess info]
               else evs @ [StError info]))
      else [])"

text \<open>
  The manual tab. A rectangle of the canvas has \<^verbatim>\<open>left\<close>, \<^verbatim>\<open>top\<close>, \<^verbatim>\<open>width\<close>
  and \<^verbatim>\<open>height\<close> in display coordinates. \<open>py_int\<close> is \<^verbatim>\<open>int\<close> on a float: it
  truncates towards zero.
\<close>

record rect =
  left :: rat
  top :: rat
  rect_width :: rat
  rect_height :: rat

definition py_int :: "rat \<Rightarrow> int" where
  "py_int x = (if 0 \<le> x then \<lfloor>x\<rfloor> else \<lceil>x\<rceil>)"

definition canvas_width :: int where
  "canvas_width = 700"

definition display_scale :: "int \<Rightarrow> rat" where
  "display_scale width = (if width > canvas_width then of_int canvas_width / of_int width else 1)"

definition display_size :: "int \<Rightarrow> int \<Rightarrow> int \<times> int" where
  "display_size width height =
     (let scale = display_scale width
      in (py_int (of_int width * scale), py_int (of_int height * scale)))"

text \<open>
  \<^verbatim>\<open>scale_x, scale_y = width / d_w, height / d_h\<close> and the box: a division by zero
  raises \<^verbatim>\<open>ZeroDivisionError\<close>.
\<close>

definition canvas_box :: "int \<Rightarrow> int \<Rightarrow> rect \<Rightarrow> exn + rat list" where
  "canvas_box width height obj =
     (let (d_w, d_h) = display_size width height in
      if d_w = 0 \<or> d_h = 0 then Inl ZeroDivisionError
      else
        (let scale_x = of_int width / of_int d_w; scale_y = of_int height / of_int d_h
         in Inr [left obj * scale_x,
                 top obj * scale_y,
                 (left obj + rect_width obj) * scale_x,
                 (top obj + rect_height obj) * scale_y]))"

text \<open>
  \<open>objects\<close> is \<^verbatim>\<open>canvas.json_data["objects"]\<close>, \<open>None\<close> when the canvas has no data
  yet. Nothing catches an exception here: \<open>Inl\<close> is an exception that leaves \<^verbatim>\<open>main\<close>.
\<close>

definition manual_tab :: "env \<Rightarrow> image \<Rightarrow> rect list option \<Rightarrow> (exn + unit) \<times> event list" where
  "manual_tab env image_pil objects =
     (case objects of
        None \<Rightarrow> (Inr (), [])
      | Some objs \<Rightarrow>
          if objs = [] then (Inr (), [])
          else
            (case canvas_box (img_width image_pil) (img_height image_pil) (last objs) of
               Inl e \<Rightarrow> (Inl e, [])
             | Inr box \<Rightarrow>
                 (case run_sam env image_pil [map Fin box] of
                    Inl e \<Rightarrow> (Inl e, [SamCall [map Fin box]])
                  | Inr r \<Rightarrow> (Inr (), [SamCall [map Fin box], StImagePlot r]))))"

section \<open>Notions of the specification\<close>



text \<open>
  The entry of the scenario of the specification:
  \<^verbatim>\<open>{"label": "Floor", "box_2d": [700, 0, 1000, 1000]}\<close>.
\<close>

definition scenario_entry :: json where
  "scenario_entry =
     JObj [(pystr ''label'', JStr (pystr ''Floor'')),
           (pystr ''box_2d'', JArr [JInt 700, JInt 0, JInt 1000, JInt 1000])]"

text \<open>
  The surroundings of that scenario: an image of 2000 x 1000 and a remote service that
  answers with the JSON text of the entry.
\<close>

definition floor_image :: image where
  "floor_image = \<lparr>img_width = 2000, img_height = 1000\<rparr>"

definition floor_env :: env where
  "floor_env =
     \<lparr>generate_content =
        (\<lambda>api_key model_name img. Inr (pystr ''[{\"label\":\"Floor\",\"box_2d\":[700,0,1000,1000]}]'')),
      sam_model = (\<lambda>img bboxes. Inr [Results (length bboxes)])\<rparr>"


text \<open>
  The inputs of the scenarios of the specification: the rectangle
  \<open>(left = 100, top = 50, width = 200, height = 100)\<close> on an image 1400 wide, a rectangle
  drawn before it, and surroundings in which the remote service answers
  \<^verbatim>\<open>Sure! Here is the result:\<close> followed by an empty array in a fenced block, and the
  segmentation model returns one result object.
\<close>

definition scenario_rect :: rect where
  "scenario_rect = \<lparr>left = 100, top = 50, rect_width = 200, rect_height = 100\<rparr>"

definition canvas_image :: image where
  "canvas_image = \<lparr>img_width = 1400, img_height = 1000\<rparr>"

definition earlier_rect :: rect where
  "earlier_rect = \<lparr>left = 10, top = 10, rect_width = 30, rect_height = 40\<rparr>"

definition scenario_env :: env where
  "scenario_env =
     \<lparr>generate_content = (\<lambda>api_key model_name img. Inr (pystr ''Sure! Here is the result: ```json\<newline>[]\<newline>```'')),
      sam_model = (\<lambda>img bboxes. Inr [Results (length bboxes)])\<rparr>"

text \<open>
  A text contains a bracketed JSON array where one of its slices (a run of consecutive
  characters, at a given place) begins with an opening bracket, ends with a closing
  bracket and is decoded to a list. \<open>bracketed_arrays\<close> lists these slices.
\<close>

definition slices :: "pystr \<Rightarrow> pystr list" where
  "slices s =
     concat (map (\<lambda>i. map (\<lambda>n. take n (drop i s)) [1..<Suc (length s - i)]) [0..<length s])"

definition is_bracketed_array :: "pystr \<Rightarrow> bool" where
  "is_bracketed_array s =
     (case s of
        [] \<Rightarrow> False
      | c # cs \<Rightarrow>
          if c = ord CHR ''['' \<and> last s = ord CHR '']''
          then (case json_loads s of Inr (JArr xs) \<Rightarrow> True | _ \<Rightarrow> False)
          else False)"

definition bracketed_arrays :: "pystr \<Rightarrow> pystr list" where
  "bracketed_arrays text_resp = filter is_bracketed_array (slices text_resp)"

text \<open>
  The response of the scenario of the specification, an empty array in a fenced block
  after a sentence; surroundings in which the remote service answers with prose only,
  and surroundings in which the remote call fails; an entry without a label.
\<close>

definition fenced_text :: pystr where
  "fenced_text = pystr ''Sure! Here is the result: ```json\<newline>[]\<newline>```''"

definition prose_env :: env where
  "prose_env =
     \<lparr>generate_content = (\<lambda>api_key model_name img. Inr (pystr ''No surfaces found'')),
      sam_model = (\<lambda>img bboxes. Inr [Results (length bboxes)])\<rparr>"

definition failing_env :: env where
  "failing_env =
     \<lparr>generate_content = (\<lambda>api_key model_name img. Inl (OtherError (pystr ''403 API key not valid''))),
      sam_model = (\<lambda>img bboxes. Inr [Results (length bboxes)])\<rparr>"


text \<open>The calls of the remote service among the events.\<close>

fun is_remote_call :: "event \<Rightarrow> bool" where
  "is_remote_call (RemoteCall k m) = True"
| "is_remote_call _ = False"

text \<open>
  An invariant of the decoder on a text that begins with an opening bracket: the
  outermost open container is an array, so the value, once complete, is a list.
\<close>

fun rooted :: "ctx list \<Rightarrow> bool" where
  "rooted [] = False"
| "rooted [c] = (case c of CArr xs \<Rightarrow> True | CObj kvs k \<Rightarrow> False)"
| "rooted (c # d # st) = rooted (d # st)"

fun arr_rooted :: "pstate \<Rightarrow> bool" where
  "arr_rooted (PValue st) = rooted st"
| "arr_rooted (PArrStart st) = (st = [] \<or> rooted st)"
| "arr_rooted (PArrNext xs st) = (st = [] \<or> rooted st)"
| "arr_rooted (PObjStart st) = rooted st"
| "arr_rooted (PObjKey kvs st) = rooted st"
| "arr_rooted (PObjColon kvs k st) = rooted st"
| "arr_rooted (PObjNext kvs st) = rooted st"
| "arr_rooted (PDone v) = (case v of JArr xs \<Rightarrow> True | _ \<Rightarrow> False)"
| "arr_rooted PFail = True"


section \<open>Properties of the coordinate conversion\<close>








text \<open>
  The same scenario from the text of the response on: the decoder gives the entry, and
  the run hands the pixel box \<open>(0, 700, 2000, 1000)\<close> to the segmentation model.
\<close>

lemma floor_scenario_parsed:
  "json_loads (pystr ''[{\"label\":\"Floor\",\"box_2d\":[700,0,1000,1000]}]'') = Inr (JArr [scenario_entry])"
  by code_simp

lemma floor_scenario_run:
  "process_gemini_auto floor_env floor_image (pystr ''key'') (pystr ''models/gemini-1.5-flash'') =
     ((Some (Results 1), MsgSuccess (pystr ''models/gemini-1.5-flash'')),
      [RemoteCall (pystr ''key'') (pystr ''models/gemini-1.5-flash''),
       SamCall [[Fin 0, Fin 700, Fin 2000, Fin 1000]]])"
  by code_simp




section \<open>Properties of the manual workflow\<close>





text \<open>
  Claim C9. In the manual workflow, whenever the list of objects of the canvas is not
  empty, only its last object, the rectangle drawn most recently, is used: the run is
  the same as with that rectangle alone, and every box handed to the segmentation
  model is the pixel box of that rectangle.
\<close>

theorem last_rectangle_only:
  "manual_tab env img (Some (earlier @ [obj])) = manual_tab env img (Some [obj])
   \<and> (\<forall>bboxes. SamCall bboxes \<in> set (snd (manual_tab env img (Some (earlier @ [obj]))))
        \<longrightarrow> (\<exists>box. canvas_box (img_width img) (img_height img) obj = Inr box
                  \<and> bboxes = [map Fin box]))"
  by (auto simp: manual_tab_def split: sum.splits)

theorem last_rectangle_only_witness:
  "manual_tab scenario_env canvas_image (Some ([earlier_rect] @ [scenario_rect])) =
     (Inr (), [SamCall [[Fin 200, Fin 100, Fin 600, Fin 300]], StImagePlot (Results 1)])"
proof -
  have "manual_tab scenario_env canvas_image (Some [scenario_rect]) =
     (Inr (), [SamCall [[Fin 200, Fin 100, Fin 600, Fin 300]], StImagePlot (Results 1)])"
    by code_simp
  with last_rectangle_only [of scenario_env canvas_image "[earlier_rect]" scenario_rect]
  show ?thesis by simp
qed

section \<open>Properties of the automatic workflow\<close>

text \<open>
  Claim C8. In the automatic workflow, if the credential or the choice of the remote
  model is absent when the user presses the button, the run ends with the validation
  error alone, and no call of the remote service is made (none is made either when the
  button is not pressed).
\<close>

theorem config_gate:
  assumes "api_key = [] \<or> selected_gemini_model = []"
  shows "auto_tab env img api_key selected_gemini_model True = [StErrorConfig]
         \<and> (\<forall>k m. RemoteCall k m \<notin> set (auto_tab env img api_key selected_gemini_model pressed))"
  using assms by (auto simp: auto_tab_def)


theorem config_gate_witness:
  "auto_tab scenario_env canvas_image [] (pystr ''models/gemini-1.5-flash'') True = [StErrorConfig]"
  using config_gate [of "[]" "pystr ''models/gemini-1.5-flash''" scenario_env canvas_image True]
  by simp


section \<open>Properties of the span search\<close>

lemma match_rest_None: "match_rest cs = None \<longleftrightarrow> ord CHR '']'' \<notin> set cs"
  by (induction cs) (auto split: option.splits)

lemma match_rest_last:
  "ord CHR '']'' \<notin> set post \<Longrightarrow> match_rest (mid @ ord CHR '']'' # post) = Some (mid @ [ord CHR '']''])"
proof (induction mid)
  case Nil
  then have "match_rest post = None" by (simp add: match_rest_None)
  then show ?case by simp
next
  case (Cons c mid)
  then show ?case by simp
qed

lemma re_search_skip:
  "ord CHR ''['' \<notin> set pre \<Longrightarrow> re_search (pre @ ord CHR ''['' # rest) =
     (case match_rest rest of Some m \<Rightarrow> Some (ord CHR ''['' # m) | None \<Rightarrow> re_search rest)"
  by (induction pre) (auto split: option.splits)

lemma match_rest_decomp:
  "match_rest cs = Some m \<Longrightarrow> \<exists>mid post. cs = m @ post \<and> m = mid @ [ord CHR '']'']"
proof (induction cs arbitrary: m)
  case Nil
  then show ?case by simp
next
  case (Cons c cs)
  show ?case
  proof (cases "match_rest cs")
    case None
    with Cons.prems have "c = ord CHR '']''" and "m = [c]"
      by (auto split: if_splits)
    then show ?thesis by simp
  next
    case (Some m')
    with Cons.prems have m: "m = c # m'" by simp
    from Cons.IH [OF Some] obtain mid post where "cs = m' @ post" "m' = mid @ [ord CHR '']'']"
      by blast
    with m have "c # cs = m @ post \<and> m = (c # mid) @ [ord CHR '']'']" by simp
    then show ?thesis by blast
  qed
qed

lemma re_search_decomp:
  "re_search text_resp = Some found \<Longrightarrow>
     \<exists>pre mid post. text_resp = pre @ found @ post \<and> found = ord CHR ''['' # mid @ [ord CHR '']'']"
proof (induction text_resp)
  case Nil
  then show ?case by simp
next
  case (Cons c cs)
  show ?case
  proof (cases "match_here (c # cs)")
    case None
    with Cons.prems have "re_search cs = Some found" by simp
    from Cons.IH [OF this] obtain pre mid post
      where "cs = pre @ found @ post" "found = ord CHR ''['' # mid @ [ord CHR '']'']"
      by blast
    then have "c # cs = (c # pre) @ found @ post \<and> found = ord CHR ''['' # mid @ [ord CHR '']'']"
      by simp
    then show ?thesis by blast
  next
    case (Some m)
    with Cons.prems have f: "found = m" by simp
    from Some obtain m' where c: "c = ord CHR ''[''" and mr: "match_rest cs = Some m'" and m: "m = c # m'"
      by (auto split: if_splits)
    from match_rest_decomp [OF mr] obtain mid post where "cs = m' @ post" "m' = mid @ [ord CHR '']'']"
      by blast
    with f m c have "c # cs = [] @ found @ post \<and> found = ord CHR ''['' # mid @ [ord CHR '']'']"
      by simp
    then show ?thesis by blast
  qed
qed

lemma slices_mem:
  assumes "found \<noteq> []"
  shows "found \<in> set (slices (pre @ found @ post))"
proof -
  let ?s = "pre @ found @ post"
  have k: "length ?s - length pre = length found + length post" by simp
  have lf: "1 \<le> length found" using assms by (cases found) simp_all
  have i: "length pre \<in> {0..<length ?s}" using assms by (cases found) simp_all
  have n: "length found \<in> {1..<Suc (length ?s - length pre)}"
    unfolding k using lf by simp
  have t: "take (length found) (drop (length pre) ?s) = found" by simp
  have "found \<in> set (map (\<lambda>n. take n (drop (length pre) ?s)) [1..<Suc (length ?s - length pre)])"
    unfolding set_map set_upt using n t by (metis image_eqI)
  then have "\<exists>i \<in> {0..<length ?s}.
      found \<in> set (map (\<lambda>n. take n (drop i ?s)) [1..<Suc (length ?s - i)])"
    using i by (rule_tac x = "length pre" in bexI)
  then show ?thesis
    unfolding slices_def by (simp only: set_concat set_map set_upt image_image UN_iff)
qed

text \<open>
  Claim C3, as stated, fails. The text \<^verbatim>\<open>[] ok]\<close> contains exactly one bracketed JSON
  array, \<^verbatim>\<open>[]\<close>, followed by prose. The pattern is greedy: the span runs from the
  first opening bracket to the last closing bracket of the whole text, here the whole
  text, which is not JSON, and no array is extracted.
\<close>

theorem span_extraction_counterexample:
  "bracketed_arrays (pystr ''[] ok]'') = [pystr ''[]'']
   \<and> json_loads (pystr ''[]'') = Inr (JArr [])
   \<and> re_search (pystr ''[] ok]'') = Some (pystr ''[] ok]'')
   \<and> parse_response (pystr ''[] ok]'') = Some (Inl JSONDecodeError)"
  by code_simp

text \<open>
  Claim C3, amended. For every response text made of a prose \<open>pre\<close> without opening
  bracket, a bracketed span \<open>arr\<close> (an opening bracket, any characters, newlines too, a
  closing bracket) and a prose \<open>post\<close> without closing bracket, the parser locates
  exactly \<open>arr\<close> and decodes it as JSON: an array is extracted whatever else the prose
  holds. The witness is the response of the scenario of the specification.
\<close>

theorem span_extraction:
  assumes "ord CHR ''['' \<notin> set pre" and "ord CHR '']'' \<notin> set post"
    and "arr = ord CHR ''['' # mid @ [ord CHR '']'']"
  shows "re_search (pre @ arr @ post) = Some arr
         \<and> parse_response (pre @ arr @ post) = Some (json_loads arr)"
proof -
  have "re_search (pre @ arr @ post) = Some arr"
    using assms(1) match_rest_last [OF assms(2), of mid]
    by (simp add: assms(3) re_search_skip)
  then show ?thesis by (simp add: parse_response_def)
qed

theorem span_extraction_witness:
  "re_search fenced_text = Some (pystr ''[]'')
   \<and> parse_response fenced_text = Some (Inr (JArr []))"
proof -
  have t: "fenced_text = pystr ''Sure! Here is the result: ```json\<newline>'' @ pystr ''[]'' @ pystr ''\<newline>```''"
    by (simp add: fenced_text_def pystr_def)
  have a: "ord CHR ''['' \<notin> set (pystr ''Sure! Here is the result: ```json\<newline>'')"
    by (simp add: pystr_def ord_def)
  have b: "ord CHR '']'' \<notin> set (pystr ''\<newline>```'')"
    by (simp add: pystr_def ord_def)
  have c: "pystr ''[]'' = ord CHR ''['' # [] @ [ord CHR '']'']"
    by (simp add: pystr_def)
  have d: "json_loads (pystr ''[]'') = Inr (JArr [])"
    by code_simp
  show ?thesis
    using span_extraction [OF a b c] by (simp add: t d)
qed

section \<open>Properties of the decoder\<close>

lemma rooted_Cons: "rooted (c # st) \<Longrightarrow> st \<noteq> [] \<Longrightarrow> rooted st"
  by (cases st) auto

lemma rooted_CObj: "rooted (CObj kvs k # st) \<Longrightarrow> rooted st"
  by (cases st) auto

lemma rooted_CArr: "st = [] \<or> rooted st \<Longrightarrow> rooted (CArr xs # st)"
  by (cases st) auto

lemma rooted_push: "rooted st \<Longrightarrow> rooted (c # st)"
  by (cases st) auto

lemma give_rooted: "rooted st \<Longrightarrow> arr_rooted (give v st)"
proof (cases st)
  case Nil
  assume "rooted st"
  with Nil show ?thesis by simp
next
  case (Cons c st')
  assume r: "rooted st"
  show ?thesis
  proof (cases c)
    case (CArr xs)
    with r Cons show ?thesis by (cases st') auto
  next
    case (CObj kvs k)
    with r Cons show ?thesis by (auto dest: rooted_CObj)
  qed
qed

lemma give_arr_rooted: "st = [] \<or> rooted st \<Longrightarrow> arr_rooted (give (JArr xs) st)"
  by (cases "st = []") (auto simp: give_rooted)

lemma start_value_rooted: "rooted st \<Longrightarrow> arr_rooted (start_value st t)"
  by (cases t) (auto simp: give_rooted)

lemma pstep_rooted: "arr_rooted p \<Longrightarrow> arr_rooted (pstep p t)"
proof (cases p)
  case (PValue st)
  assume "arr_rooted p"
  with PValue show ?thesis by (simp add: start_value_rooted)
next
  case (PArrStart st)
  assume "arr_rooted p"
  with PArrStart show ?thesis
    by (auto simp: give_arr_rooted rooted_CArr intro!: start_value_rooted)
next
  case (PArrNext xs st)
  assume "arr_rooted p"
  with PArrNext show ?thesis
    by (auto simp: give_arr_rooted rooted_CArr)
next
  case (PObjStart st)
  assume "arr_rooted p"
  with PObjStart show ?thesis
    by (auto simp: give_rooted split: token.splits json.splits)
next
  case (PObjKey kvs st)
  assume "arr_rooted p"
  with PObjKey show ?thesis
    by (auto split: token.splits json.splits)
next
  case (PObjColon kvs k st)
  assume "arr_rooted p"
  with PObjColon show ?thesis by (auto simp: rooted_push)
next
  case (PObjNext kvs st)
  assume "arr_rooted p"
  with PObjNext show ?thesis by (auto simp: give_rooted)
next
  case (PDone v)
  then show ?thesis by simp
next
  case PFail
  then show ?thesis by simp
qed

lemma foldl_pstep_rooted: "arr_rooted p \<Longrightarrow> arr_rooted (foldl pstep p ts)"
  by (induction ts arbitrary: p) (auto simp: pstep_rooted)

lemma tokenize_bracket:
  "tokenize (ord CHR ''['' # cs) = map_option (Cons TLBrack) (tokenize cs)"
  by (subst tokenize.simps) (simp add: is_ws_def ord_def)

lemma json_loads_bracket:
  assumes "json_loads (ord CHR ''['' # cs) = Inr v"
  shows "\<exists>xs. v = JArr xs"
proof (cases "tokenize cs")
  case None
  with assms show ?thesis by (simp add: json_loads_def tokenize_bracket)
next
  case (Some ts)
  with assms have run: "foldl pstep (PArrStart []) ts = PDone v"
    by (simp add: json_loads_def tokenize_bracket split: pstate.splits)
  have "arr_rooted (foldl pstep (PArrStart []) ts)"
    by (rule foldl_pstep_rooted) simp
  with run have "arr_rooted (PDone v)" by simp
  then show ?thesis by (cases v) auto
qed

lemma json_loads_error: "json_loads s = Inl e \<Longrightarrow> e = JSONDecodeError"
  by (auto simp: json_loads_def split: option.splits pstate.splits)

lemma re_search_not_array:
  assumes "bracketed_arrays text_resp = []" and "re_search text_resp = Some found"
  shows "json_loads found = Inl JSONDecodeError"
proof -
  from re_search_decomp [OF assms(2)] obtain pre mid post
    where t: "text_resp = pre @ found @ post" and f: "found = ord CHR ''['' # mid @ [ord CHR '']'']"
    by blast
  have "found \<in> set (slices text_resp)"
    unfolding t by (rule slices_mem) (simp add: f)
  with assms(1) have nb: "\<not> is_bracketed_array found"
    by (auto simp: bracketed_arrays_def filter_empty_conv)
  show ?thesis
  proof (cases "json_loads found")
    case (Inl e)
    then show ?thesis using json_loads_error by blast
  next
    case (Inr v)
    then obtain xs where "v = JArr xs"
      using json_loads_bracket [of "mid @ [ord CHR '']'']" v] by (auto simp: f)
    with Inr nb show ?thesis
      by (simp add: is_bracketed_array_def f)
  qed
qed

section \<open>Properties of the detection adapter\<close>

text \<open>
  Claim C5. For every response text that contains no bracketed JSON array, the
  detection adapter returns a failure (no result) after its single call of the remote
  service. Its message is the one that no JSON was found, which carries
  \<^verbatim>\<open>text_resp[:100]\<close>, at most the first 100 characters of the response, and this is
  the message whenever the pattern matches nowhere; when the pattern matches a span
  that is not JSON, the message is that of the decoder's error, which carries nothing
  of the response.
\<close>

theorem no_array_failure:
  assumes "bracketed_arrays text_resp = []"
    and "generate_content env api_key model_name img = Inr text_resp"
  shows "\<exists>m. process_gemini_auto env img api_key model_name =
              ((None, m), [RemoteCall api_key model_name])
           \<and> (m = MsgJsonNotFound (take 100 text_resp) \<or> m = MsgExc JSONDecodeError)
           \<and> (re_search text_resp = None \<longrightarrow> m = MsgJsonNotFound (take 100 text_resp))
           \<and> length (take 100 text_resp) \<le> 100"
proof (cases "re_search text_resp")
  case None
  then show ?thesis
    using assms(2)
    by (simp add: process_gemini_auto_def try_body_def handle_response_def parse_response_def)
next
  case (Some found)
  from re_search_not_array [OF assms(1) Some]
  show ?thesis
    using assms(2) Some
    by (simp add: process_gemini_auto_def try_body_def handle_response_def parse_response_def)
qed

theorem no_array_failure_witness:
  "bracketed_arrays (pystr ''No surfaces found'') = []
   \<and> process_gemini_auto prose_env canvas_image (pystr ''key'') (pystr ''models/gemini-1.5-flash'') =
       ((None, MsgJsonNotFound (pystr ''No surfaces found'')),
        [RemoteCall (pystr ''key'') (pystr ''models/gemini-1.5-flash'')])"
proof -
  have a: "bracketed_arrays (pystr ''No surfaces found'') = []"
    by code_simp
  have b: "generate_content prose_env (pystr ''key'') (pystr ''models/gemini-1.5-flash'') canvas_image
             = Inr (pystr ''No surfaces found'')"
    by (simp add: prose_env_def)
  have c: "re_search (pystr ''No surfaces found'') = None"
    by code_simp
  have d: "take 100 (pystr ''No surfaces found'') = pystr ''No surfaces found''"
    by (simp add: pystr_def)
  show ?thesis
    using a no_array_failure [OF a b] by (auto simp: c d)
qed

lemma convert_loop_fails:
  "\<exists>item \<in> set items. \<exists>e. convert_item w h item = Inl e
   \<Longrightarrow> \<exists>e. convert_loop w h items bs ls = Inl e"
proof (induction items arbitrary: bs ls)
  case Nil
  then show ?case by simp
next
  case (Cons item items)
  show ?case
  proof (cases "convert_item w h item")
    case (Inl e)
    then show ?thesis by simp
  next
    case (Inr p)
    with Cons.prems have "\<exists>item \<in> set items. \<exists>e. convert_item w h item = Inl e" by auto
    from Cons.IH [OF this] show ?thesis using Inr by (simp split: prod.splits)
  qed
qed

lemma process_remote_error:
  "generate_content env api_key model_name img = Inl e \<Longrightarrow>
   process_gemini_auto env img api_key model_name =
     ((None, MsgExc e), [RemoteCall api_key model_name])"
  by (simp add: process_gemini_auto_def try_body_def)

lemma handle_response_events:
  "filter is_remote_call (snd (handle_response env img model_name text_resp)) = []"
  by (simp add: handle_response_def split: option.splits sum.splits prod.splits)

lemma process_one_call:
  "filter is_remote_call (snd (process_gemini_auto env img api_key model_name)) =
     [RemoteCall api_key model_name]"
proof (cases "generate_content env api_key model_name img")
  case (Inl e)
  then show ?thesis by (simp add: process_remote_error)
next
  case (Inr text_resp)
  obtain r evs where h: "handle_response env img model_name text_resp = (r, evs)"
    by (cases "handle_response env img model_name text_resp")
  with handle_response_events [of env img model_name text_resp]
  have "filter is_remote_call evs = []" by simp
  with Inr h show ?thesis
    by (cases r) (simp_all add: process_gemini_auto_def try_body_def)
qed

text \<open>
  Claim C7. Every error condition of the automatic detection path ends in one failure
  message and no result: an exception of the remote call (network, authentication), a
  span that is not JSON, an entry that lacks the key \<^verbatim>\<open>box_2d\<close>, and in general any
  exception raised in the \<^verbatim>\<open>try\<close> block. None triggers a retry: every run calls the
  remote service exactly once. (The key \<^verbatim>\<open>label\<close> has a default; its absence is no
  error condition.)
\<close>

theorem errors_single_message:
  "(\<forall>e. generate_content env api_key model_name img = Inl e \<longrightarrow>
      process_gemini_auto env img api_key model_name =
        ((None, MsgExc e), [RemoteCall api_key model_name]))
   \<and> (\<forall>text_resp found e.
        generate_content env api_key model_name img = Inr text_resp
        \<and> re_search text_resp = Some found \<and> json_loads found = Inl e \<longrightarrow>
        process_gemini_auto env img api_key model_name =
          ((None, MsgExc e), [RemoteCall api_key model_name]))
   \<and> (\<forall>text_resp items.
        generate_content env api_key model_name img = Inr text_resp
        \<and> parse_response text_resp = Some (Inr (JArr items))
        \<and> (\<exists>kvs. JObj kvs \<in> set items \<and> dict_lookup kvs (pystr ''box_2d'') = None) \<longrightarrow>
        (\<exists>e. process_gemini_auto env img api_key model_name =
          ((None, MsgExc e), [RemoteCall api_key model_name])))
   \<and> (\<forall>e. fst (try_body env img api_key model_name) = Inl e \<longrightarrow>
        fst (process_gemini_auto env img api_key model_name) = (None, MsgExc e))
   \<and> filter is_remote_call (snd (process_gemini_auto env img api_key model_name)) =
        [RemoteCall api_key model_name]"
proof (intro conjI allI impI)
  fix e assume "generate_content env api_key model_name img = Inl e"
  then show "process_gemini_auto env img api_key model_name =
        ((None, MsgExc e), [RemoteCall api_key model_name])"
    by (rule process_remote_error)
next
  fix text_resp found e
  assume "generate_content env api_key model_name img = Inr text_resp
        \<and> re_search text_resp = Some found \<and> json_loads found = Inl e"
  then show "process_gemini_auto env img api_key model_name =
          ((None, MsgExc e), [RemoteCall api_key model_name])"
    by (simp add: process_gemini_auto_def try_body_def handle_response_def parse_response_def)
next
  fix text_resp items
  assume a: "generate_content env api_key model_name img = Inr text_resp
        \<and> parse_response text_resp = Some (Inr (JArr items))
        \<and> (\<exists>kvs. JObj kvs \<in> set items \<and> dict_lookup kvs (pystr ''box_2d'') = None)"
  then obtain kvs where k: "JObj kvs \<in> set items" "dict_lookup kvs (pystr ''box_2d'') = None"
    by blast
  have "convert_item (img_width img) (img_height img) (JObj kvs) = Inl (KeyError (pystr ''box_2d''))"
    using k(2) by (simp add: convert_item_def)
  with k(1) have "\<exists>item \<in> set items. \<exists>e. convert_item (img_width img) (img_height img) item = Inl e"
    by blast
  from convert_loop_fails [OF this, of "[]" "[]"]
  obtain e where "convert_items (img_width img) (img_height img) (JArr items) = Inl e"
    by (auto simp: convert_items_def)
  with a have "process_gemini_auto env img api_key model_name =
          ((None, MsgExc e), [RemoteCall api_key model_name])"
    by (simp add: process_gemini_auto_def try_body_def handle_response_def)
  then show "\<exists>e. process_gemini_auto env img api_key model_name =
          ((None, MsgExc e), [RemoteCall api_key model_name])" ..
next
  fix e assume "fst (try_body env img api_key model_name) = Inl e"
  then show "fst (process_gemini_auto env img api_key model_name) = (None, MsgExc e)"
    by (cases "try_body env img api_key model_name") (simp add: process_gemini_auto_def)
next
  show "filter is_remote_call (snd (process_gemini_auto env img api_key model_name)) =
        [RemoteCall api_key model_name]"
    by (rule process_one_call)
qed

theorem errors_single_message_witness:
  "process_gemini_auto failing_env canvas_image (pystr ''key'') (pystr ''models/gemini-1.5-flash'') =
     ((None, MsgExc (OtherError (pystr ''403 API key not valid''))),
      [RemoteCall (pystr ''key'') (pystr ''models/gemini-1.5-flash'')])"
proof -
  have g: "generate_content failing_env (pystr ''key'') (pystr ''models/gemini-1.5-flash'') canvas_image
             = Inl (OtherError (pystr ''403 API key not valid''))"
    by (simp add: failing_env_def)
  from errors_single_message [of failing_env "pystr ''key''" "pystr ''models/gemini-1.5-flash''" canvas_image]
  have "\<forall>e. generate_content failing_env (pystr ''key'') (pystr ''models/gemini-1.5-flash'') canvas_image = Inl e \<longrightarrow>
      process_gemini_auto failing_env canvas_image (pystr ''key'') (pystr ''models/gemini-1.5-flash'') =
        ((None, MsgExc e), [RemoteCall (pystr ''key'') (pystr ''models/gemini-1.5-flash'')])"
    by (rule conjunct1)
  with g show ?thesis by blast
qed

text \<open>
  Claim C4, as stated, fails. For the response of the scenario, whose array is empty,
  the automatic tab reports the outcome with \<^verbatim>\<open>st.error\<close>, under the prefix it puts
  before every failure, and not as an informational status.
\<close>

theorem empty_detection_counterexample:
  "parse_response (pystr ''Sure! Here is the result: ```json\<newline>[]\<newline>```'') = Some (Inr (JArr []))
   \<and> auto_tab scenario_env canvas_image (pystr ''key'') (pystr ''models/gemini-1.5-flash'') True =
       [RemoteCall (pystr ''key'') (pystr ''models/gemini-1.5-flash''), StError MsgNoTarget]"
  by code_simp

lemma process_empty:
  assumes "generate_content env api_key model_name img = Inr text_resp"
    and "parse_response text_resp = Some (Inr (JArr []))"
  shows "process_gemini_auto env img api_key model_name =
           ((None, MsgNoTarget), [RemoteCall api_key model_name])"
  using assms
  by (simp add: process_gemini_auto_def try_body_def handle_response_def convert_items_def)

lemma process_parse_failure:
  assumes "generate_content env api_key model_name img = Inr t"
    and "parse_response t = None \<or> (\<exists>e. parse_response t = Some (Inl e))"
  shows "fst (process_gemini_auto env img api_key model_name) \<noteq> (None, MsgNoTarget)"
  using assms
  by (auto simp: process_gemini_auto_def try_body_def handle_response_def)

text \<open>
  Claim C4, amended. For every response whose extracted JSON array parses to an empty
  list, \<^verbatim>\<open>process_gemini_auto\<close> returns no result and the message that nothing was
  detected, a constant that is not the text of an exception, without calling the
  segmentation model; a response that fails to parse never gives this pair, so the two
  outcomes are told apart by the message; \<^verbatim>\<open>main\<close> shows the message through
  \<^verbatim>\<open>st.error\<close>, as it shows every outcome without result.
\<close>

theorem empty_detection:
  assumes "generate_content env api_key model_name img = Inr text_resp"
    and "parse_response text_resp = Some (Inr (JArr []))"
  shows "process_gemini_auto env img api_key model_name =
           ((None, MsgNoTarget), [RemoteCall api_key model_name])
         \<and> (api_key \<noteq> [] \<and> model_name \<noteq> [] \<longrightarrow>
              auto_tab env img api_key model_name True =
                [RemoteCall api_key model_name, StError MsgNoTarget])
         \<and> (\<forall>env' t. generate_content env' api_key model_name img = Inr t
                \<and> (parse_response t = None \<or> (\<exists>e. parse_response t = Some (Inl e)))
              \<longrightarrow> fst (process_gemini_auto env' img api_key model_name) \<noteq> (None, MsgNoTarget))"
proof -
  note p = process_empty [OF assms]
  have "auto_tab env img api_key model_name True =
          [RemoteCall api_key model_name, StError MsgNoTarget]"
    if "api_key \<noteq> [] \<and> model_name \<noteq> []"
    using that by (simp add: auto_tab_def p)
  then show ?thesis
    using p process_parse_failure by blast
qed

theorem empty_detection_witness:
  "process_gemini_auto scenario_env canvas_image (pystr ''key'') (pystr ''models/gemini-1.5-flash'') =
     ((None, MsgNoTarget), [RemoteCall (pystr ''key'') (pystr ''models/gemini-1.5-flash'')])"
proof -
  have g: "generate_content scenario_env (pystr ''key'') (pystr ''models/gemini-1.5-flash'') canvas_image =
     Inr (pystr ''Sure! Here is the result: ```json\<newline>[]\<newline>```'')"
    by (simp add: scenario_env_def)
  have p: "parse_response (pystr ''Sure! Here is the result: ```json\<newline>[]\<newline>```'') = Some (Inr (JArr []))"
    by code_simp
  from empty_detection [OF g p] show ?thesis by (rule conjunct1)
qed






end
